theory Spec2Isabelle
  imports Main "HOL-Library.Word"
begin

unbundle bit_operations_syntax

section \<open>The mock Kafka broker of package kafkatest\<close>

text \<open>
  A shallow embedding of \<^verbatim>\<open>kafkatest/server.go\<close>. Machine integers are words of the
  width the Go type has; a Go \<^verbatim>\<open>int\<close> (the \<^verbatim>\<open>Processed\<close> counter, the result of
  \<^verbatim>\<open>strconv.Atoi\<close>) is an \<^typ>\<open>int\<close>, and the conversion \<^verbatim>\<open>int32(port)\<close> is
  \<^term>\<open>word_of_int\<close>, which truncates as Go does.
\<close>

type_synonym byte = "8 word"
type_synonym int8 = "8 word"
type_synonym int16 = "16 word"
type_synonym int32 = "32 word"
type_synonym int64 = "64 word"
type_synonym uint32 = "32 word"

subsection \<open>Request kinds\<close>

definition AnyRequest :: int16 where "AnyRequest = - 1"
definition ProduceRequest :: int16 where "ProduceRequest = 0"
definition FetchRequest :: int16 where "FetchRequest = 1"
definition OffsetRequest :: int16 where "OffsetRequest = 2"
definition MetadataRequest :: int16 where "MetadataRequest = 3"
definition OffsetCommitRequest :: int16 where "OffsetCommitRequest = 8"
definition OffsetFetchRequest :: int16 where "OffsetFetchRequest = 9"
definition ConsumerMetadataRequest :: int16 where "ConsumerMetadataRequest = 10"

subsection \<open>The message types of package proto\<close>

text \<open>
  The struct declarations live in package \<^verbatim>\<open>proto\<close>, which is not part of the
  sources at hand. Each record carries the fields that \<^verbatim>\<open>server.go\<close> reads or writes,
  under the names it uses. A Go slice of structs is a list (\<^verbatim>\<open>len\<close> and \<^verbatim>\<open>range\<close>
  do not tell a nil slice from an empty one); a byte slice handed to the encoder is a
  \<^typ>\<open>byte list option\<close>, \<^term>\<open>None\<close> for the nil slice. A value of the interface
  type \<^verbatim>\<open>error\<close> is an option, \<^term>\<open>None\<close> for nil.
\<close>

text \<open>Modelled from the spec: the error value \<^verbatim>\<open>proto.ErrUnknownTopicOrPartition\<close>
  ("unknown topic or partition"); \<open>ErrOther\<close> stands for the other errors of package
  proto, named by their message.\<close>

datatype KafkaError = ErrUnknownTopicOrPartition | ErrOther string

record Message =
  Key :: "byte list option"
  Value :: "byte list option"

record FetchReqPartition =
  ID :: int32

record FetchReqTopic =
  Name :: string
  Partitions :: "FetchReqPartition list"

record FetchReq =
  CorrelationID :: int32
  Topics :: "FetchReqTopic list"

record FetchRespPartition =
  ID :: int32
  Err :: "KafkaError option"
  TipOffset :: int64
  Messages :: "Message list"

record FetchRespTopic =
  Name :: string
  Partitions :: "FetchRespPartition list"

record FetchResp =
  CorrelationID :: int32
  Topics :: "FetchRespTopic list"

record ProduceReqPartition =
  ID :: int32

record ProduceReqTopic =
  Name :: string
  Partitions :: "ProduceReqPartition list"

record ProduceReq =
  CorrelationID :: int32
  Topics :: "ProduceReqTopic list"

record ProduceRespPartition =
  ID :: int32
  Err :: "KafkaError option"
  Offset :: int64

record ProduceRespTopic =
  Name :: string
  Partitions :: "ProduceRespPartition list"

record ProduceResp =
  CorrelationID :: int32
  Topics :: "ProduceRespTopic list"

record OffsetReq =
  CorrelationID :: int32

record MetadataReq =
  CorrelationID :: int32

record MetadataRespBroker =
  NodeID :: int32
  Host :: string
  Port :: int32

record MetadataRespTopic =
  Name :: string

record MetadataResp =
  CorrelationID :: int32
  Brokers :: "MetadataRespBroker list"
  Topics :: "MetadataRespTopic list"

record ConsumerMetadataReq =
  CorrelationID :: int32

record OffsetCommitReq =
  CorrelationID :: int32

record OffsetFetchReq =
  CorrelationID :: int32

text \<open>
  \<^verbatim>\<open>Serializable\<close> is an interface; its values are the pointers the type switch of
  \<^verbatim>\<open>defaultRequestHandler\<close> tells apart, the responses it builds, and any other
  implementing type (named by what \<^verbatim>\<open>%T\<close> prints). The nil interface value is
  \<^term>\<open>None\<close> of \<^typ>\<open>'a option\<close>.
\<close>

datatype Serializable =
    FetchReqPtr FetchReq
  | ProduceReqPtr ProduceReq
  | OffsetReqPtr OffsetReq
  | MetadataReqPtr MetadataReq
  | ConsumerMetadataReqPtr ConsumerMetadataReq
  | OffsetCommitReqPtr OffsetCommitReq
  | OffsetFetchReqPtr OffsetFetchReq
  | FetchRespPtr FetchResp
  | ProduceRespPtr ProduceResp
  | MetadataRespPtr MetadataResp
  | OtherSerializable string

subsection \<open>Panics\<close>

text \<open>
  Every \<^verbatim>\<open>panic\<close> of the source is a value, one constructor for each site:
  \<^item> \<open>ServerAlreadyStarted\<close>: \<^verbatim>\<open>panic("server already started")\<close>;
  \<^item> \<open>CannotStartServer err\<close>: \<^verbatim>\<open>panic(fmt.Sprint("cannot start server: %s", err))\<close>;
  \<^item> \<open>NoHandlerFor kind\<close>: \<^verbatim>\<open>panic(fmt.Sprintf("no handler for %d", kind))\<close>;
  \<^item> \<open>CouldNotReadMessage kind err\<close>: \<^verbatim>\<open>"could not read message %d: %s"\<close>;
  \<^item> \<open>CannotSerialize response err\<close>: \<^verbatim>\<open>"cannot serialize %T: %s"\<close>;
  \<^item> \<open>NotImplemented\<close>: \<^verbatim>\<open>panic("not implemented")\<close>;
  \<^item> \<open>UnknownMessageType request\<close>: \<^verbatim>\<open>"unknown message type: %T"\<close>;
  \<^item> \<open>CannotSplitServerAddress err\<close>: \<^verbatim>\<open>"cannot split server address: %s"\<close>;
  \<^item> \<open>PortIsNotANumber sport err\<close>: \<^verbatim>\<open>"port '%s' is not a number: %s"\<close>;
  \<^item> \<open>NilPointerDereference\<close>: the run-time panic of a method call on the nil listener
    or of a call of a nil function value;
  \<^item> \<open>HandlerPanic v\<close>: a panic raised by a handler the test registered.
  An error of a library function is the string its \<^verbatim>\<open>Error()\<close> returns.
\<close>

datatype Panic =
    ServerAlreadyStarted
  | CannotStartServer string
  | NoHandlerFor int16
  | CouldNotReadMessage int16 string
  | CannotSerialize Serializable string
  | NotImplemented
  | UnknownMessageType "Serializable option"
  | CannotSplitServerAddress string
  | PortIsNotANumber string string
  | NilPointerDereference
  | HandlerPanic string

subsection \<open>What the server calls outside this file\<close>

text \<open>
  The functions of the Go standard library and of package proto that \<^verbatim>\<open>server.go\<close>
  calls are parameters: a result with an error return is a sum, \<^term>\<open>Inl\<close> the error.
  \<^verbatim>\<open>encoding\<close> gives the bytes the encoder of package proto writes for one value.
\<close>

record Stdlib =
  SplitHostPort :: "string \<Rightarrow> string + string \<times> string"
  Atoi :: "string \<Rightarrow> string + int"
  ChecksumIEEE :: "byte list \<Rightarrow> uint32"

datatype EncodeArg = EncInt8 int8 | EncBytes "byte list option"

record Proto =
  ReadFetchReq :: "byte list \<Rightarrow> string + FetchReq"
  ReadProduceReq :: "byte list \<Rightarrow> string + ProduceReq"
  ReadOffsetReq :: "byte list \<Rightarrow> string + OffsetReq"
  ReadMetadataReq :: "byte list \<Rightarrow> string + MetadataReq"
  ReadConsumerMetadataReq :: "byte list \<Rightarrow> string + ConsumerMetadataReq"
  ReadOffsetCommitReq :: "byte list \<Rightarrow> string + OffsetCommitReq"
  ReadOffsetFetchReq :: "byte list \<Rightarrow> string + OffsetFetchReq"
  Bytes :: "Serializable \<Rightarrow> string + byte list"
  encoding :: "EncodeArg \<Rightarrow> byte list"

subsection \<open>The server\<close>

text \<open>
  A handler is a Go function value: nil, the method value
  \<^verbatim>\<open>srv.defaultRequestHandler\<close> that \<^verbatim>\<open>NewServer\<close> installs, or a function of the
  test, which returns a response (possibly nil) or panics (\<^term>\<open>Inl\<close> of the value
  it panics with).
\<close>

datatype RequestHandler =
    NilHandler
  | DefaultRequestHandler
  | UserHandler "Serializable option \<Rightarrow> string + Serializable option"

text \<open>The listener: the string its \<^verbatim>\<open>Addr().String()\<close> returns, and whether
  \<^verbatim>\<open>Close\<close> was called on it.\<close>

record Listener =
  AddrString :: string
  closed :: bool

text \<open>The mutex \<^verbatim>\<open>mu\<close> has no field: the model runs one operation at a time.\<close>

record Server =
  Processed :: int
  ln :: "Listener option"
  handlers :: "int16 \<rightharpoonup> RequestHandler"

definition NewServer :: Server where
  "NewServer =
     (let srv = \<lparr>Processed = 0, ln = None, handlers = Map.empty\<rparr>
      in srv\<lparr>handlers := (handlers srv)(AnyRequest \<mapsto> DefaultRequestHandler)\<rparr>)"

definition Handle :: "int16 \<Rightarrow> RequestHandler \<Rightarrow> Server \<Rightarrow> Server" where
  "Handle reqKind handler srv = srv\<lparr>handlers := (handlers srv)(reqKind \<mapsto> handler)\<rparr>"

definition Address :: "Server \<Rightarrow> Panic + string" where
  "Address srv =
     (case ln srv of
        None \<Rightarrow> Inl NilPointerDereference
      | Some l \<Rightarrow> Inr (AddrString l))"

definition HostPort :: "Stdlib \<Rightarrow> Server \<Rightarrow> Panic + string \<times> int" where
  "HostPort lib srv =
     (case ln srv of
        None \<Rightarrow> Inl NilPointerDereference
      | Some l \<Rightarrow>
          (case SplitHostPort lib (AddrString l) of
             Inl err \<Rightarrow> Inl (CannotSplitServerAddress err)
           | Inr (host, sport) \<Rightarrow>
               (case Atoi lib sport of
                  Inl err \<Rightarrow> Inl (PortIsNotANumber sport err)
                | Inr port \<Rightarrow> Inr (if host = [] then ''localhost'' else host, port))))"

text \<open>
  \<^verbatim>\<open>Start\<close> takes what \<^verbatim>\<open>net.Listen("tcp4", "")\<close> would return. The accept loop it
  launches hands every accepted connection to \<^verbatim>\<open>handleClient\<close> and writes no field of
  the server.
\<close>

definition Start :: "string + Listener \<Rightarrow> Server \<Rightarrow> Panic + Server" where
  "Start listen srv =
     (if ln srv \<noteq> None then Inl ServerAlreadyStarted
      else
        (case listen of
           Inl err \<Rightarrow> Inl (CannotStartServer err)
         | Inr l \<Rightarrow> Inr (srv\<lparr>ln := Some l\<rparr>)))"

definition Close :: "Server \<Rightarrow> Panic + Server" where
  "Close srv =
     (case ln srv of
        None \<Rightarrow> Inl NilPointerDereference
      | Some l \<Rightarrow> Inr (srv\<lparr>ln := Some (l\<lparr>closed := True\<rparr>)\<rparr>))"

subsection \<open>The default responder\<close>

text \<open>
  \<^verbatim>\<open>make([]T, n)\<close> is \<^term>\<open>replicate n z\<close> for the zero value \<open>z\<close> of \<open>T\<close>. Each
  \<^verbatim>\<open>range\<close> loop is a recursion over the slice it ranges over, with the index counted
  up and the assignment \<^verbatim>\<open>resp.Topics[ti] = ...\<close> a list update. The inner loop
  assigns through \<^verbatim>\<open>resp.Topics[ti].Partitions[pi]\<close>, so it works on the topic list.
  Each slice is made with the length of the slice the loop ranges over, so every index is
  in range and no index expression panics (the hypotheses of the lemmas on the loops).
\<close>

definition zero_FetchRespPartition :: FetchRespPartition where
  "zero_FetchRespPartition =
     \<lparr>FetchRespPartition.ID = 0, FetchRespPartition.Err = None, TipOffset = 0, Messages = []\<rparr>"

definition zero_FetchRespTopic :: FetchRespTopic where
  "zero_FetchRespTopic = \<lparr>FetchRespTopic.Name = [], FetchRespTopic.Partitions = []\<rparr>"

fun fetch_partitions_loop ::
  "nat \<Rightarrow> nat \<Rightarrow> FetchReqPartition list \<Rightarrow> FetchRespTopic list \<Rightarrow> FetchRespTopic list" where
  "fetch_partitions_loop ti pi [] topics = topics"
| "fetch_partitions_loop ti pi (part # rest) topics =
     fetch_partitions_loop ti (Suc pi) rest
       (topics[ti := (topics ! ti)\<lparr>FetchRespTopic.Partitions :=
          (FetchRespTopic.Partitions (topics ! ti))[pi :=
             \<lparr>FetchRespPartition.ID = FetchReqPartition.ID part,
              FetchRespPartition.Err = Some ErrUnknownTopicOrPartition,
              TipOffset = - 1,
              Messages = []\<rparr>]\<rparr>])"

fun fetch_topics_loop ::
  "nat \<Rightarrow> FetchReqTopic list \<Rightarrow> FetchRespTopic list \<Rightarrow> FetchRespTopic list" where
  "fetch_topics_loop ti [] topics = topics"
| "fetch_topics_loop ti (topic # rest) topics =
     fetch_topics_loop (Suc ti) rest
       (fetch_partitions_loop ti 0 (FetchReqTopic.Partitions topic)
          (topics[ti :=
             \<lparr>FetchRespTopic.Name = FetchReqTopic.Name topic,
              FetchRespTopic.Partitions =
                replicate (length (FetchReqTopic.Partitions topic)) zero_FetchRespPartition\<rparr>]))"

definition zero_ProduceRespPartition :: ProduceRespPartition where
  "zero_ProduceRespPartition =
     \<lparr>ProduceRespPartition.ID = 0, ProduceRespPartition.Err = None, Offset = 0\<rparr>"

definition zero_ProduceRespTopic :: ProduceRespTopic where
  "zero_ProduceRespTopic = \<lparr>ProduceRespTopic.Name = [], ProduceRespTopic.Partitions = []\<rparr>"

fun produce_partitions_loop ::
  "nat \<Rightarrow> nat \<Rightarrow> ProduceReqPartition list \<Rightarrow> ProduceRespTopic list \<Rightarrow> ProduceRespTopic list" where
  "produce_partitions_loop ti pi [] topics = topics"
| "produce_partitions_loop ti pi (part # rest) topics =
     produce_partitions_loop ti (Suc pi) rest
       (topics[ti := (topics ! ti)\<lparr>ProduceRespTopic.Partitions :=
          (ProduceRespTopic.Partitions (topics ! ti))[pi :=
             \<lparr>ProduceRespPartition.ID = ProduceReqPartition.ID part,
              ProduceRespPartition.Err = Some ErrUnknownTopicOrPartition,
              Offset = - 1\<rparr>]\<rparr>])"

fun produce_topics_loop ::
  "nat \<Rightarrow> ProduceReqTopic list \<Rightarrow> ProduceRespTopic list \<Rightarrow> ProduceRespTopic list" where
  "produce_topics_loop ti [] topics = topics"
| "produce_topics_loop ti (topic # rest) topics =
     produce_topics_loop (Suc ti) rest
       (produce_partitions_loop ti 0 (ProduceReqTopic.Partitions topic)
          (topics[ti :=
             \<lparr>ProduceRespTopic.Name = ProduceReqTopic.Name topic,
              ProduceRespTopic.Partitions =
                replicate (length (ProduceReqTopic.Partitions topic)) zero_ProduceRespPartition\<rparr>]))"

text \<open>
  The type switch, in the order of the source. The Metadata case reads the listener as
  \<^verbatim>\<open>HostPort\<close> does, with the same three panics, and converts the port to
  \<^verbatim>\<open>int32\<close>. The default case takes the nil request and every other type. The
  statements after a \<^verbatim>\<open>panic\<close> and the closing \<^verbatim>\<open>return nil\<close> are never reached.
\<close>

definition defaultRequestHandler ::
  "Stdlib \<Rightarrow> Server \<Rightarrow> Serializable option \<Rightarrow> Panic + Serializable option" where
  "defaultRequestHandler lib srv request =
     (case request of
        Some (FetchReqPtr req) \<Rightarrow>
          (let resp = \<lparr>FetchResp.CorrelationID = FetchReq.CorrelationID req,
                       FetchResp.Topics =
                         replicate (length (FetchReq.Topics req)) zero_FetchRespTopic\<rparr>;
               resp = resp\<lparr>FetchResp.Topics :=
                         fetch_topics_loop 0 (FetchReq.Topics req) (FetchResp.Topics resp)\<rparr>
           in Inr (Some (FetchRespPtr resp)))
      | Some (ProduceReqPtr req) \<Rightarrow>
          (let resp = \<lparr>ProduceResp.CorrelationID = ProduceReq.CorrelationID req,
                       ProduceResp.Topics = []\<rparr>;
               resp = resp\<lparr>ProduceResp.Topics :=
                         replicate (length (ProduceReq.Topics req)) zero_ProduceRespTopic\<rparr>;
               resp = resp\<lparr>ProduceResp.Topics :=
                         produce_topics_loop 0 (ProduceReq.Topics req) (ProduceResp.Topics resp)\<rparr>
           in Inr (Some (ProduceRespPtr resp)))
      | Some (OffsetReqPtr req) \<Rightarrow> Inl NotImplemented
      | Some (MetadataReqPtr req) \<Rightarrow>
          (case ln srv of
             None \<Rightarrow> Inl NilPointerDereference
           | Some l \<Rightarrow>
               (case SplitHostPort lib (AddrString l) of
                  Inl err \<Rightarrow> Inl (CannotSplitServerAddress err)
                | Inr (host, sport) \<Rightarrow>
                    (case Atoi lib sport of
                       Inl err \<Rightarrow> Inl (PortIsNotANumber sport err)
                     | Inr port \<Rightarrow>
                         (let host = (if host = [] then ''localhost'' else host)
                          in Inr (Some (MetadataRespPtr
                               \<lparr>MetadataResp.CorrelationID = MetadataReq.CorrelationID req,
                                Brokers = [\<lparr>NodeID = 1, Host = host, Port = word_of_int port\<rparr>],
                                MetadataResp.Topics = []\<rparr>))))))
      | Some (ConsumerMetadataReqPtr req) \<Rightarrow> Inl NotImplemented
      | Some (OffsetCommitReqPtr req) \<Rightarrow> Inl NotImplemented
      | Some (OffsetFetchReqPtr req) \<Rightarrow> Inl NotImplemented
      | _ \<Rightarrow> Inl (UnknownMessageType request))"

subsection \<open>The connection dispatcher\<close>

text \<open>The two map lookups of \<^verbatim>\<open>handleClient\<close>; the result is \<^term>\<open>None\<close> when
  \<^verbatim>\<open>ok\<close> ends false.\<close>

definition resolve :: "Server \<Rightarrow> int16 \<Rightarrow> RequestHandler option" where
  "resolve srv kind =
     (case handlers srv kind of
        Some fn \<Rightarrow> Some fn
      | None \<Rightarrow> handlers srv AnyRequest)"

text \<open>The \<^verbatim>\<open>switch kind\<close> of \<^verbatim>\<open>handleClient\<close>: it has no default case, so a kind it
  does not list leaves the request nil and the error nil.\<close>

definition decode :: "Proto \<Rightarrow> int16 \<Rightarrow> byte list \<Rightarrow> string + Serializable option" where
  "decode proto kind b =
     (if kind = FetchRequest then
        (case ReadFetchReq proto b of Inl err \<Rightarrow> Inl err | Inr req \<Rightarrow> Inr (Some (FetchReqPtr req)))
      else if kind = ProduceRequest then
        (case ReadProduceReq proto b of Inl err \<Rightarrow> Inl err | Inr req \<Rightarrow> Inr (Some (ProduceReqPtr req)))
      else if kind = OffsetRequest then
        (case ReadOffsetReq proto b of Inl err \<Rightarrow> Inl err | Inr req \<Rightarrow> Inr (Some (OffsetReqPtr req)))
      else if kind = MetadataRequest then
        (case ReadMetadataReq proto b of Inl err \<Rightarrow> Inl err | Inr req \<Rightarrow> Inr (Some (MetadataReqPtr req)))
      else if kind = ConsumerMetadataRequest then
        (case ReadConsumerMetadataReq proto b of
           Inl err \<Rightarrow> Inl err | Inr req \<Rightarrow> Inr (Some (ConsumerMetadataReqPtr req)))
      else if kind = OffsetCommitRequest then
        (case ReadOffsetCommitReq proto b of
           Inl err \<Rightarrow> Inl err | Inr req \<Rightarrow> Inr (Some (OffsetCommitReqPtr req)))
      else if kind = OffsetFetchRequest then
        (case ReadOffsetFetchReq proto b of
           Inl err \<Rightarrow> Inl err | Inr req \<Rightarrow> Inr (Some (OffsetFetchReqPtr req)))
      else Inr None)"

text \<open>The call \<^verbatim>\<open>fn(request)\<close>.\<close>

definition call_handler ::
  "Stdlib \<Rightarrow> Server \<Rightarrow> RequestHandler \<Rightarrow> Serializable option \<Rightarrow> Panic + Serializable option" where
  "call_handler lib srv fn request =
     (case fn of
        NilHandler \<Rightarrow> Inl NilPointerDereference
      | DefaultRequestHandler \<Rightarrow> defaultRequestHandler lib srv request
      | UserHandler f \<Rightarrow>
          (case f request of
             Inl v \<Rightarrow> Inl (HandlerPanic v)
           | Inr response \<Rightarrow> Inr response))"

text \<open>One turn of the loop of \<^verbatim>\<open>handleClient\<close> after \<^verbatim>\<open>proto.ReadReq\<close> has returned
  the frame \<open>(kind, b)\<close>: the result is the bytes it writes to the connection, if any.\<close>

definition dispatch ::
  "Stdlib \<Rightarrow> Proto \<Rightarrow> Server \<Rightarrow> int16 \<Rightarrow> byte list \<Rightarrow> Panic + byte list option" where
  "dispatch lib proto srv kind b =
     (case resolve srv kind of
        None \<Rightarrow> Inl (NoHandlerFor kind)
      | Some fn \<Rightarrow>
          (case decode proto kind b of
             Inl err \<Rightarrow> Inl (CouldNotReadMessage kind err)
           | Inr request \<Rightarrow>
               (case call_handler lib srv fn request of
                  Inl p \<Rightarrow> Inl p
                | Inr None \<Rightarrow> Inr None
                | Inr (Some response) \<Rightarrow>
                    (case Bytes proto response of
                       Inl err \<Rightarrow> Inl (CannotSerialize response err)
                     | Inr bs \<Rightarrow> Inr (Some bs)))))"

text \<open>
  The loop itself. The connection is the list of frames \<^verbatim>\<open>proto.ReadReq\<close> returns
  before it fails (then the loop returns), and the byte strings written so far.
\<close>

fun handleClient ::
  "Stdlib \<Rightarrow> Proto \<Rightarrow> Server \<Rightarrow> (int16 \<times> byte list) list \<Rightarrow> byte list list
     \<Rightarrow> Panic + byte list list" where
  "handleClient lib proto srv [] written = Inr written"
| "handleClient lib proto srv ((kind, b) # frames) written =
     (case dispatch lib proto srv kind b of
        Inl p \<Rightarrow> Inl p
      | Inr None \<Rightarrow> handleClient lib proto srv frames written
      | Inr (Some bs) \<Rightarrow> handleClient lib proto srv frames (written @ [bs]))"

subsection \<open>The checksum helper\<close>

text \<open>Modelled from the spec: the encoder of package proto (not among the sources)
  appends the encoding of each value to the buffer it was made for.\<close>

definition Encode :: "Proto \<Rightarrow> byte list \<Rightarrow> EncodeArg \<Rightarrow> byte list" where
  "Encode proto buf v = buf @ encoding proto v"

definition ComputeCrc :: "Stdlib \<Rightarrow> Proto \<Rightarrow> 'a Message_scheme \<Rightarrow> uint32" where
  "ComputeCrc lib proto m =
     (let buf = [];
          buf = Encode proto buf (EncInt8 0);
          buf = Encode proto buf (EncInt8 0);
          buf = Encode proto buf (EncBytes (Key m));
          buf = Encode proto buf (EncBytes (Value m))
      in ChecksumIEEE lib buf)"

subsection \<open>Runs of a server\<close>

text \<open>
  What a test can do with a server: register a handler, start it (with the answer of
  \<^verbatim>\<open>net.Listen\<close>), close it, and have a client send frames over a connection. A
  panic leaves the fields of the server as they were, since every panic of the source
  comes before the first assignment of its operation. In Go a panic nobody recovers ends
  the process, and \<^verbatim>\<open>Close\<close> on a server that was never started panics with the mutex
  held; a run here goes on after a panic, so the runs cover every state the program
  reaches, and more.
\<close>

datatype Op =
    OpHandle int16 RequestHandler
  | OpStart "string + Listener"
  | OpClose
  | OpClient "(int16 \<times> byte list) list"

definition apply_op :: "Stdlib \<Rightarrow> Proto \<Rightarrow> Op \<Rightarrow> Server \<Rightarrow> Panic + Server" where
  "apply_op lib proto op srv =
     (case op of
        OpHandle reqKind handler \<Rightarrow> Inr (Handle reqKind handler srv)
      | OpStart listen \<Rightarrow> Start listen srv
      | OpClose \<Rightarrow> Close srv
      | OpClient frames \<Rightarrow>
          (case handleClient lib proto srv frames [] of
             Inl p \<Rightarrow> Inl p
           | Inr written \<Rightarrow> Inr srv))"

fun run :: "Stdlib \<Rightarrow> Proto \<Rightarrow> Op list \<Rightarrow> Server \<Rightarrow> Server" where
  "run lib proto [] srv = srv"
| "run lib proto (op # ops) srv =
     run lib proto ops
       (case apply_op lib proto op srv of
          Inl p \<Rightarrow> srv
        | Inr srv' \<Rightarrow> srv')"

subsection \<open>What the specification says of the default responder\<close>

text \<open>
  The partition and topic results the specification describes for a request nobody
  handles: the identifier and the name of the request, the error "unknown topic or
  partition", the offset \<open>-1\<close> and, for Fetch, no messages.
\<close>

definition unknown_fetch_partition :: "FetchReqPartition \<Rightarrow> FetchRespPartition" where
  "unknown_fetch_partition part =
     \<lparr>FetchRespPartition.ID = FetchReqPartition.ID part,
      FetchRespPartition.Err = Some ErrUnknownTopicOrPartition,
      TipOffset = - 1,
      Messages = []\<rparr>"

definition unknown_fetch_topic :: "FetchReqTopic \<Rightarrow> FetchRespTopic" where
  "unknown_fetch_topic topic =
     \<lparr>FetchRespTopic.Name = FetchReqTopic.Name topic,
      FetchRespTopic.Partitions = map unknown_fetch_partition (FetchReqTopic.Partitions topic)\<rparr>"

definition unknown_produce_partition :: "ProduceReqPartition \<Rightarrow> ProduceRespPartition" where
  "unknown_produce_partition part =
     \<lparr>ProduceRespPartition.ID = ProduceReqPartition.ID part,
      ProduceRespPartition.Err = Some ErrUnknownTopicOrPartition,
      Offset = - 1\<rparr>"

definition unknown_produce_topic :: "ProduceReqTopic \<Rightarrow> ProduceRespTopic" where
  "unknown_produce_topic topic =
     \<lparr>ProduceRespTopic.Name = ProduceReqTopic.Name topic,
      ProduceRespTopic.Partitions =
        map unknown_produce_partition (ProduceReqTopic.Partitions topic)\<rparr>"

text \<open>The correlation identifier a request or a response carries.\<close>

fun correlation_id :: "Serializable \<Rightarrow> int32 option" where
  "correlation_id (FetchReqPtr r) = Some (FetchReq.CorrelationID r)"
| "correlation_id (ProduceReqPtr r) = Some (ProduceReq.CorrelationID r)"
| "correlation_id (OffsetReqPtr r) = Some (OffsetReq.CorrelationID r)"
| "correlation_id (MetadataReqPtr r) = Some (MetadataReq.CorrelationID r)"
| "correlation_id (ConsumerMetadataReqPtr r) = Some (ConsumerMetadataReq.CorrelationID r)"
| "correlation_id (OffsetCommitReqPtr r) = Some (OffsetCommitReq.CorrelationID r)"
| "correlation_id (OffsetFetchReqPtr r) = Some (OffsetFetchReq.CorrelationID r)"
| "correlation_id (FetchRespPtr r) = Some (FetchResp.CorrelationID r)"
| "correlation_id (ProduceRespPtr r) = Some (ProduceResp.CorrelationID r)"
| "correlation_id (MetadataRespPtr r) = Some (MetadataResp.CorrelationID r)"
| "correlation_id (OtherSerializable t) = None"

subsection \<open>A concrete library and codec\<close>

text \<open>
  The theorems below hold for every library and codec. To run the model on concrete
  inputs, here is one of each. The checksum is CRC-32 with the IEEE polynomial in its
  bit-by-bit form (reflected, constant \<open>0xEDB88320\<close>, initial value and final
  complement \<open>0xFFFFFFFF\<close>). The encoding is Kafka's wire format: an \<^verbatim>\<open>int8\<close> is one
  byte, a byte slice is its length as a big-endian \<^verbatim>\<open>int32\<close> followed by its bytes,
  and the nil slice is the length \<open>-1\<close> alone. The address functions know the two
  addresses the examples use; the decoders read a big-endian correlation identifier and
  nothing else.
\<close>

definition crc32_bit :: "uint32 \<Rightarrow> uint32" where
  "crc32_bit c = (if bit c 0 then drop_bit 1 c XOR 0xEDB88320 else drop_bit 1 c)"

definition crc32_byte :: "uint32 \<Rightarrow> byte \<Rightarrow> uint32" where
  "crc32_byte c b = (crc32_bit ^^ 8) (c XOR ucast b)"

definition crc32_ieee :: "byte list \<Rightarrow> uint32" where
  "crc32_ieee bs = NOT (foldl crc32_byte 0xFFFFFFFF bs)"

definition be32 :: "32 word \<Rightarrow> byte list" where
  "be32 w = [ucast (drop_bit 24 w), ucast (drop_bit 16 w), ucast (drop_bit 8 w), ucast w]"

fun kafka_encoding :: "EncodeArg \<Rightarrow> byte list" where
  "kafka_encoding (EncInt8 v) = [v]"
| "kafka_encoding (EncBytes None) = be32 (- 1)"
| "kafka_encoding (EncBytes (Some bs)) = be32 (of_nat (length bs)) @ bs"

definition sample_lib :: Stdlib where
  "sample_lib =
     \<lparr>SplitHostPort = (\<lambda>hostport.
        if hostport = ''0.0.0.0:9092'' then Inr (''0.0.0.0'', ''9092'')
        else if hostport = '':9092'' then Inr ([], ''9092'')
        else Inl ''missing port in address''),
      Atoi = (\<lambda>s. if s = ''9092'' then Inr 9092 else Inl ''invalid syntax''),
      ChecksumIEEE = crc32_ieee\<rparr>"

fun read_correlation_id :: "byte list \<Rightarrow> string + int32" where
  "read_correlation_id (b3 # b2 # b1 # b0 # rest) =
     Inr (push_bit 24 (ucast b3) OR push_bit 16 (ucast b2) OR push_bit 8 (ucast b1) OR ucast b0)"
| "read_correlation_id bs = Inl ''unexpected EOF''"

definition sample_proto :: Proto where
  "sample_proto =
     \<lparr>ReadFetchReq = (\<lambda>b. case read_correlation_id b of Inl e \<Rightarrow> Inl e
        | Inr c \<Rightarrow> Inr \<lparr>FetchReq.CorrelationID = c, FetchReq.Topics = []\<rparr>),
      ReadProduceReq = (\<lambda>b. case read_correlation_id b of Inl e \<Rightarrow> Inl e
        | Inr c \<Rightarrow> Inr \<lparr>ProduceReq.CorrelationID = c, ProduceReq.Topics = []\<rparr>),
      ReadOffsetReq = (\<lambda>b. case read_correlation_id b of Inl e \<Rightarrow> Inl e
        | Inr c \<Rightarrow> Inr \<lparr>OffsetReq.CorrelationID = c\<rparr>),
      ReadMetadataReq = (\<lambda>b. case read_correlation_id b of Inl e \<Rightarrow> Inl e
        | Inr c \<Rightarrow> Inr \<lparr>MetadataReq.CorrelationID = c\<rparr>),
      ReadConsumerMetadataReq = (\<lambda>b. case read_correlation_id b of Inl e \<Rightarrow> Inl e
        | Inr c \<Rightarrow> Inr \<lparr>ConsumerMetadataReq.CorrelationID = c\<rparr>),
      ReadOffsetCommitReq = (\<lambda>b. case read_correlation_id b of Inl e \<Rightarrow> Inl e
        | Inr c \<Rightarrow> Inr \<lparr>OffsetCommitReq.CorrelationID = c\<rparr>),
      ReadOffsetFetchReq = (\<lambda>b. case read_correlation_id b of Inl e \<Rightarrow> Inl e
        | Inr c \<Rightarrow> Inr \<lparr>OffsetFetchReq.CorrelationID = c\<rparr>),
      Bytes = (\<lambda>v. case correlation_id v of
          None \<Rightarrow> Inl ''not serializable''
        | Some c \<Rightarrow> Inr (be32 c)),
      encoding = kafka_encoding\<rparr>"

subsection \<open>Example values\<close>

definition example_fetch_req :: FetchReq where
  "example_fetch_req =
     \<lparr>FetchReq.CorrelationID = 42,
      FetchReq.Topics =
        [\<lparr>FetchReqTopic.Name = ''a'',
          FetchReqTopic.Partitions = [\<lparr>FetchReqPartition.ID = 1\<rparr>, \<lparr>FetchReqPartition.ID = 5\<rparr>]\<rparr>,
         \<lparr>FetchReqTopic.Name = ''b'',
          FetchReqTopic.Partitions = [\<lparr>FetchReqPartition.ID = 7\<rparr>]\<rparr>]\<rparr>"

definition example_produce_req :: ProduceReq where
  "example_produce_req =
     \<lparr>ProduceReq.CorrelationID = 7,
      ProduceReq.Topics =
        [\<lparr>ProduceReqTopic.Name = ''first'',
          ProduceReqTopic.Partitions = [\<lparr>ProduceReqPartition.ID = 0\<rparr>]\<rparr>,
         \<lparr>ProduceReqTopic.Name = ''second'',
          ProduceReqTopic.Partitions = [\<lparr>ProduceReqPartition.ID = 3\<rparr>]\<rparr>]\<rparr>"

definition example_listener :: Listener where
  "example_listener = \<lparr>AddrString = '':9092'', closed = False\<rparr>"

definition example_handler :: RequestHandler where
  "example_handler =
     UserHandler (\<lambda>request. Inr (Some (FetchRespPtr
       \<lparr>FetchResp.CorrelationID = 99, FetchResp.Topics = []\<rparr>)))"

section \<open>Proofs\<close>

subsection \<open>The loops of the default responder fill their slices\<close>

lemma fill_slice:
  "i < length xs \<Longrightarrow>
   take (Suc i) (xs[i := v]) @ ys @ drop (Suc (i + n)) (xs[i := v]) =
   take i xs @ (v # ys) @ drop (i + Suc n) xs"
  by (simp add: take_Suc_conv_app_nth)

lemma fetch_partitions_loop_eq:
  "ti < length topics \<Longrightarrow>
   pi + length parts \<le> length (FetchRespTopic.Partitions (topics ! ti)) \<Longrightarrow>
   fetch_partitions_loop ti pi parts topics =
     topics[ti := (topics ! ti)\<lparr>FetchRespTopic.Partitions :=
        take pi (FetchRespTopic.Partitions (topics ! ti)) @
        map unknown_fetch_partition parts @
        drop (pi + length parts) (FetchRespTopic.Partitions (topics ! ti))\<rparr>]"
proof (induction parts arbitrary: pi topics)
  case Nil
  then show ?case by simp
next
  case (Cons part rest)
  let ?ps = "FetchRespTopic.Partitions (topics ! ti)"
  let ?v = "unknown_fetch_partition part"
  let ?topics' = "topics[ti := (topics ! ti)\<lparr>FetchRespTopic.Partitions := ?ps[pi := ?v]\<rparr>]"
  from Cons.prems have pi: "pi < length ?ps" by simp
  have at: "?topics' ! ti = (topics ! ti)\<lparr>FetchRespTopic.Partitions := ?ps[pi := ?v]\<rparr>"
    using Cons.prems(1) by simp
  have "fetch_partitions_loop ti pi (part # rest) topics =
        fetch_partitions_loop ti (Suc pi) rest ?topics'"
    by (simp add: unknown_fetch_partition_def)
  also have "\<dots> = ?topics'[ti := (?topics' ! ti)\<lparr>FetchRespTopic.Partitions :=
        take (Suc pi) (FetchRespTopic.Partitions (?topics' ! ti)) @
        map unknown_fetch_partition rest @
        drop (Suc pi + length rest) (FetchRespTopic.Partitions (?topics' ! ti))\<rparr>]"
    using Cons.prems by (intro Cons.IH) (simp_all add: at)
  also have "\<dots> = topics[ti := (topics ! ti)\<lparr>FetchRespTopic.Partitions :=
        take pi ?ps @ map unknown_fetch_partition (part # rest) @
        drop (pi + length (part # rest)) ?ps\<rparr>]"
    using fill_slice [OF pi, of ?v "map unknown_fetch_partition rest" "length rest"]
    by (simp add: at)
  finally show ?case .
qed

lemma fetch_topic_filled:
  assumes "ti < length topics"
  shows "fetch_partitions_loop ti 0 (FetchReqTopic.Partitions topic)
           (topics[ti := \<lparr>FetchRespTopic.Name = FetchReqTopic.Name topic,
              FetchRespTopic.Partitions =
                replicate (length (FetchReqTopic.Partitions topic)) zero_FetchRespPartition\<rparr>]) =
         topics[ti := unknown_fetch_topic topic]"
  using assms
  by (subst fetch_partitions_loop_eq) (simp_all add: unknown_fetch_topic_def)

lemma fetch_topics_loop_eq:
  "ti + length ts \<le> length topics \<Longrightarrow>
   fetch_topics_loop ti ts topics =
     take ti topics @ map unknown_fetch_topic ts @ drop (ti + length ts) topics"
proof (induction ts arbitrary: ti topics)
  case Nil
  then show ?case by simp
next
  case (Cons topic rest)
  from Cons.prems have ti: "ti < length topics" by simp
  have "fetch_topics_loop ti (topic # rest) topics =
        fetch_topics_loop (Suc ti) rest (topics[ti := unknown_fetch_topic topic])"
    by (simp add: fetch_topic_filled [OF ti])
  also have "\<dots> = take (Suc ti) (topics[ti := unknown_fetch_topic topic]) @
        map unknown_fetch_topic rest @
        drop (Suc ti + length rest) (topics[ti := unknown_fetch_topic topic])"
    using Cons.prems by (intro Cons.IH) simp
  also have "\<dots> = take ti topics @ map unknown_fetch_topic (topic # rest) @
        drop (ti + length (topic # rest)) topics"
    using fill_slice [OF ti, of "unknown_fetch_topic topic" "map unknown_fetch_topic rest" "length rest"]
    by simp
  finally show ?case .
qed

lemma default_fetch:
  "defaultRequestHandler lib srv (Some (FetchReqPtr req)) =
     Inr (Some (FetchRespPtr
       \<lparr>FetchResp.CorrelationID = FetchReq.CorrelationID req,
        FetchResp.Topics = map unknown_fetch_topic (FetchReq.Topics req)\<rparr>))"
proof -
  have "fetch_topics_loop 0 (FetchReq.Topics req)
          (replicate (length (FetchReq.Topics req)) zero_FetchRespTopic) =
        map unknown_fetch_topic (FetchReq.Topics req)"
    by (subst fetch_topics_loop_eq) simp_all
  then show ?thesis
    by (simp add: defaultRequestHandler_def)
qed

lemma produce_partitions_loop_eq:
  "ti < length topics \<Longrightarrow>
   pi + length parts \<le> length (ProduceRespTopic.Partitions (topics ! ti)) \<Longrightarrow>
   produce_partitions_loop ti pi parts topics =
     topics[ti := (topics ! ti)\<lparr>ProduceRespTopic.Partitions :=
        take pi (ProduceRespTopic.Partitions (topics ! ti)) @
        map unknown_produce_partition parts @
        drop (pi + length parts) (ProduceRespTopic.Partitions (topics ! ti))\<rparr>]"
proof (induction parts arbitrary: pi topics)
  case Nil
  then show ?case by simp
next
  case (Cons part rest)
  let ?ps = "ProduceRespTopic.Partitions (topics ! ti)"
  let ?v = "unknown_produce_partition part"
  let ?topics' = "topics[ti := (topics ! ti)\<lparr>ProduceRespTopic.Partitions := ?ps[pi := ?v]\<rparr>]"
  from Cons.prems have pi: "pi < length ?ps" by simp
  have at: "?topics' ! ti = (topics ! ti)\<lparr>ProduceRespTopic.Partitions := ?ps[pi := ?v]\<rparr>"
    using Cons.prems(1) by simp
  have "produce_partitions_loop ti pi (part # rest) topics =
        produce_partitions_loop ti (Suc pi) rest ?topics'"
    by (simp add: unknown_produce_partition_def)
  also have "\<dots> = ?topics'[ti := (?topics' ! ti)\<lparr>ProduceRespTopic.Partitions :=
        take (Suc pi) (ProduceRespTopic.Partitions (?topics' ! ti)) @
        map unknown_produce_partition rest @
        drop (Suc pi + length rest) (ProduceRespTopic.Partitions (?topics' ! ti))\<rparr>]"
    using Cons.prems by (intro Cons.IH) (simp_all add: at)
  also have "\<dots> = topics[ti := (topics ! ti)\<lparr>ProduceRespTopic.Partitions :=
        take pi ?ps @ map unknown_produce_partition (part # rest) @
        drop (pi + length (part # rest)) ?ps\<rparr>]"
    using fill_slice [OF pi, of ?v "map unknown_produce_partition rest" "length rest"]
    by (simp add: at)
  finally show ?case .
qed

lemma produce_topic_filled:
  assumes "ti < length topics"
  shows "produce_partitions_loop ti 0 (ProduceReqTopic.Partitions topic)
           (topics[ti := \<lparr>ProduceRespTopic.Name = ProduceReqTopic.Name topic,
              ProduceRespTopic.Partitions =
                replicate (length (ProduceReqTopic.Partitions topic)) zero_ProduceRespPartition\<rparr>]) =
         topics[ti := unknown_produce_topic topic]"
  using assms
  by (subst produce_partitions_loop_eq) (simp_all add: unknown_produce_topic_def)

lemma produce_topics_loop_eq:
  "ti + length ts \<le> length topics \<Longrightarrow>
   produce_topics_loop ti ts topics =
     take ti topics @ map unknown_produce_topic ts @ drop (ti + length ts) topics"
proof (induction ts arbitrary: ti topics)
  case Nil
  then show ?case by simp
next
  case (Cons topic rest)
  from Cons.prems have ti: "ti < length topics" by simp
  have "produce_topics_loop ti (topic # rest) topics =
        produce_topics_loop (Suc ti) rest (topics[ti := unknown_produce_topic topic])"
    by (simp add: produce_topic_filled [OF ti])
  also have "\<dots> = take (Suc ti) (topics[ti := unknown_produce_topic topic]) @
        map unknown_produce_topic rest @
        drop (Suc ti + length rest) (topics[ti := unknown_produce_topic topic])"
    using Cons.prems by (intro Cons.IH) simp
  also have "\<dots> = take ti topics @ map unknown_produce_topic (topic # rest) @
        drop (ti + length (topic # rest)) topics"
    using fill_slice [OF ti, of "unknown_produce_topic topic" "map unknown_produce_topic rest" "length rest"]
    by simp
  finally show ?case .
qed

lemma default_produce:
  "defaultRequestHandler lib srv (Some (ProduceReqPtr req)) =
     Inr (Some (ProduceRespPtr
       \<lparr>ProduceResp.CorrelationID = ProduceReq.CorrelationID req,
        ProduceResp.Topics = map unknown_produce_topic (ProduceReq.Topics req)\<rparr>))"
proof -
  have "produce_topics_loop 0 (ProduceReq.Topics req)
          (replicate (length (ProduceReq.Topics req)) zero_ProduceRespTopic) =
        map unknown_produce_topic (ProduceReq.Topics req)"
    by (subst produce_topics_loop_eq) simp_all
  then show ?thesis
    by (simp add: defaultRequestHandler_def)
qed

subsection \<open>Dispatch to the default responder\<close>

lemma resolve_default:
  "handlers srv kind = None \<Longrightarrow> handlers srv AnyRequest = Some DefaultRequestHandler \<Longrightarrow>
   resolve srv kind = Some DefaultRequestHandler"
  by (simp add: resolve_def)

lemma dispatch_default:
  assumes "handlers srv kind = None"
    and "handlers srv AnyRequest = Some DefaultRequestHandler"
    and "decode proto kind b = Inr request"
  shows "dispatch lib proto srv kind b =
     (case defaultRequestHandler lib srv request of
        Inl p \<Rightarrow> Inl p
      | Inr None \<Rightarrow> Inr None
      | Inr (Some response) \<Rightarrow>
          (case Bytes proto response of
             Inl err \<Rightarrow> Inl (CannotSerialize response err)
           | Inr bs \<Rightarrow> Inr (Some bs)))"
  using assms by (simp add: dispatch_def resolve_default call_handler_def)

lemma decode_Fetch:
  "ReadFetchReq proto b = Inr req \<Longrightarrow> decode proto FetchRequest b = Inr (Some (FetchReqPtr req))"
  by (simp add: decode_def)

lemma decode_Produce:
  "ReadProduceReq proto b = Inr req \<Longrightarrow>
   decode proto ProduceRequest b = Inr (Some (ProduceReqPtr req))"
  by (simp add: decode_def ProduceRequest_def FetchRequest_def)

lemma decode_Metadata:
  "ReadMetadataReq proto b = Inr req \<Longrightarrow>
   decode proto MetadataRequest b = Inr (Some (MetadataReqPtr req))"
  by (simp add: decode_def ProduceRequest_def FetchRequest_def MetadataRequest_def
      OffsetRequest_def)

lemma HostPort_Inr:
  "HostPort lib srv = Inr (host, port) \<longleftrightarrow>
   (\<exists>l h sport. ln srv = Some l \<and> SplitHostPort lib (AddrString l) = Inr (h, sport) \<and>
      Atoi lib sport = Inr port \<and> host = (if h = [] then ''localhost'' else h))"
  by (auto simp: HostPort_def split: option.splits sum.splits)

lemma default_metadata:
  "HostPort lib srv = Inr (host, port) \<Longrightarrow>
   defaultRequestHandler lib srv (Some (MetadataReqPtr req)) =
     Inr (Some (MetadataRespPtr
       \<lparr>MetadataResp.CorrelationID = MetadataReq.CorrelationID req,
        Brokers = [\<lparr>NodeID = 1, Host = host, Port = word_of_int port\<rparr>],
        MetadataResp.Topics = []\<rparr>))"
  by (auto simp: HostPort_Inr defaultRequestHandler_def)

lemma sint_int32_in_range:
  "- (2 ^ 31) \<le> port \<Longrightarrow> port < 2 ^ 31 \<Longrightarrow> sint (word_of_int port :: int32) = port"
  by (simp add: sint_sbintrunc' signed_take_bit_int_eq_self)

lemma default_metadata_panics:
  "HostPort lib srv = Inl p \<Longrightarrow>
   defaultRequestHandler lib srv (Some (MetadataReqPtr req)) = Inl p"
  by (auto simp: HostPort_def defaultRequestHandler_def split: option.splits sum.splits)

lemma decode_Offset:
  "decode proto OffsetRequest b = Inr request \<Longrightarrow> \<exists>req. request = Some (OffsetReqPtr req)"
  by (cases "ReadOffsetReq proto b")
    (auto simp: decode_def FetchRequest_def ProduceRequest_def OffsetRequest_def)

lemma decode_ConsumerMetadata:
  "decode proto ConsumerMetadataRequest b = Inr request \<Longrightarrow>
   \<exists>req. request = Some (ConsumerMetadataReqPtr req)"
  by (cases "ReadConsumerMetadataReq proto b")
    (auto simp: decode_def FetchRequest_def ProduceRequest_def OffsetRequest_def
      MetadataRequest_def ConsumerMetadataRequest_def)

lemma decode_OffsetCommit:
  "decode proto OffsetCommitRequest b = Inr request \<Longrightarrow>
   \<exists>req. request = Some (OffsetCommitReqPtr req)"
  by (cases "ReadOffsetCommitReq proto b")
    (auto simp: decode_def FetchRequest_def ProduceRequest_def OffsetRequest_def
      MetadataRequest_def ConsumerMetadataRequest_def OffsetCommitRequest_def)

lemma decode_OffsetFetch:
  "decode proto OffsetFetchRequest b = Inr request \<Longrightarrow>
   \<exists>req. request = Some (OffsetFetchReqPtr req)"
  by (cases "ReadOffsetFetchReq proto b")
    (auto simp: decode_def FetchRequest_def ProduceRequest_def OffsetRequest_def
      MetadataRequest_def ConsumerMetadataRequest_def OffsetCommitRequest_def
      OffsetFetchRequest_def)

lemma default_unimplemented:
  "defaultRequestHandler lib srv (Some (OffsetReqPtr oreq)) = Inl NotImplemented"
  "defaultRequestHandler lib srv (Some (ConsumerMetadataReqPtr cmreq)) = Inl NotImplemented"
  "defaultRequestHandler lib srv (Some (OffsetCommitReqPtr ocreq)) = Inl NotImplemented"
  "defaultRequestHandler lib srv (Some (OffsetFetchReqPtr ofreq)) = Inl NotImplemented"
  by (simp_all add: defaultRequestHandler_def)

lemma decode_unimplemented:
  assumes "kind \<in> {OffsetRequest, ConsumerMetadataRequest, OffsetCommitRequest, OffsetFetchRequest}"
    and "decode proto kind b = Inr request"
  shows "defaultRequestHandler lib srv request = Inl NotImplemented"
  using assms decode_Offset [of proto b request] decode_ConsumerMetadata [of proto b request]
    decode_OffsetCommit [of proto b request] decode_OffsetFetch [of proto b request]
  by (auto simp: default_unimplemented)

subsection \<open>Runs keep the fallback, the listener and the counter\<close>

lemma apply_op_fallback:
  "apply_op lib proto op srv = Inr srv' \<Longrightarrow> handlers srv AnyRequest \<noteq> None \<Longrightarrow>
   handlers srv' AnyRequest \<noteq> None"
  by (cases op)
    (auto simp: apply_op_def Handle_def Start_def Close_def split: if_splits option.splits sum.splits)

lemma run_fallback:
  "handlers srv AnyRequest \<noteq> None \<Longrightarrow> handlers (run lib proto ops srv) AnyRequest \<noteq> None"
proof (induction ops arbitrary: srv)
  case Nil
  then show ?case by simp
next
  case (Cons op ops)
  show ?case
  proof (cases "apply_op lib proto op srv")
    case (Inl p)
    with Cons show ?thesis by simp
  next
    case (Inr srv')
    from Inr Cons.prems have "handlers srv' AnyRequest \<noteq> None"
      by (rule apply_op_fallback)
    with Inr Cons.IH show ?thesis by simp
  qed
qed

lemma apply_op_started:
  "apply_op lib proto op srv = Inr srv' \<Longrightarrow> ln srv \<noteq> None \<Longrightarrow> ln srv' \<noteq> None"
  by (cases op)
    (auto simp: apply_op_def Handle_def Start_def Close_def split: if_splits option.splits sum.splits)

lemma run_started:
  "ln srv \<noteq> None \<Longrightarrow> ln (run lib proto ops srv) \<noteq> None"
proof (induction ops arbitrary: srv)
  case Nil
  then show ?case by simp
next
  case (Cons op ops)
  show ?case
  proof (cases "apply_op lib proto op srv")
    case (Inl p)
    with Cons show ?thesis by simp
  next
    case (Inr srv')
    from Inr Cons.prems have "ln srv' \<noteq> None"
      by (rule apply_op_started)
    with Inr Cons.IH show ?thesis by simp
  qed
qed

lemma apply_op_Processed:
  "apply_op lib proto op srv = Inr srv' \<Longrightarrow> Processed srv' = Processed srv"
  by (cases op)
    (auto simp: apply_op_def Handle_def Start_def Close_def split: if_splits option.splits sum.splits)

lemma run_Processed:
  "Processed (run lib proto ops srv) = Processed srv"
proof (induction ops arbitrary: srv)
  case Nil
  then show ?case by simp
next
  case (Cons op ops)
  show ?case
  proof (cases "apply_op lib proto op srv")
    case (Inl p)
    with Cons show ?thesis by simp
  next
    case (Inr srv')
    then have "Processed srv' = Processed srv"
      by (rule apply_op_Processed)
    with Inr Cons.IH [of srv'] show ?thesis by simp
  qed
qed

subsection \<open>The panics of the default responder and of the dispatcher\<close>

lemma default_panics:
  assumes "defaultRequestHandler lib srv request = Inl p"
  shows "p = NotImplemented \<or> p = UnknownMessageType request \<or> p = NilPointerDereference \<or>
     (\<exists>err. p = CannotSplitServerAddress err) \<or> (\<exists>sport err. p = PortIsNotANumber sport err)"
proof (cases request)
  case None
  with assms show ?thesis by (simp add: defaultRequestHandler_def)
next
  case (Some v)
  with assms show ?thesis
    by (cases v)
      (auto simp: defaultRequestHandler_def split: option.splits sum.splits prod.splits)
qed

lemma call_handler_panics:
  "call_handler lib srv fn request = Inl p \<Longrightarrow> p \<noteq> NoHandlerFor kind"
  using default_panics [of lib srv request p]
  by (cases fn) (auto simp: call_handler_def split: sum.splits)

lemma dispatch_NoHandlerFor:
  "dispatch lib proto srv kind b = Inl (NoHandlerFor kind') \<Longrightarrow> resolve srv kind = None"
  using call_handler_panics [of lib srv _ _ "NoHandlerFor kind'" kind']
  by (auto simp: dispatch_def split: option.splits sum.splits)

lemma handleClient_NoHandlerFor:
  "handleClient lib proto srv frames written = Inl (NoHandlerFor kind') \<Longrightarrow>
   \<exists>kind. resolve srv kind = None"
proof (induction frames arbitrary: written)
  case Nil
  then show ?case by simp
next
  case (Cons frame frames)
  obtain kind b where frame: "frame = (kind, b)"
    by (cases frame)
  show ?case
  proof (cases "dispatch lib proto srv kind b")
    case (Inl p)
    with Cons.prems frame have "dispatch lib proto srv kind b = Inl (NoHandlerFor kind')"
      by simp
    then show ?thesis
      by (blast dest: dispatch_NoHandlerFor)
  next
    case (Inr out)
    with Cons.prems frame Cons.IH show ?thesis
      by (cases out) auto
  qed
qed

lemma resolve_fallback:
  "handlers srv AnyRequest \<noteq> None \<Longrightarrow> resolve srv kind \<noteq> None"
  by (simp add: resolve_def split: option.splits)

subsection \<open>The checksum\<close>

lemma ComputeCrc_eq:
  "ComputeCrc lib proto m =
     ChecksumIEEE lib
       (encoding proto (EncInt8 0) @ encoding proto (EncInt8 0) @
        encoding proto (EncBytes (Key m)) @ encoding proto (EncBytes (Value m)))"
  by (simp add: ComputeCrc_def Encode_def)

lemma funpow8: "(f ^^ 8) x = f (f (f (f (f (f (f (f x)))))))"
  by (simp add: eval_nat_numeral)

text \<open>The check value of CRC-32: the checksum of the ASCII digits "123456789".\<close>

lemma crc32_ieee_check_value:
  "crc32_ieee [0x31, 0x32, 0x33, 0x34, 0x35, 0x36, 0x37, 0x38, 0x39] = 0xCBF43926"
  by (simp add: crc32_ieee_def crc32_byte_def funpow8 crc32_bit_def)

lemma ComputeCrc_sample:
  "ComputeCrc sample_lib sample_proto m =
     crc32_ieee ([0, 0] @ kafka_encoding (EncBytes (Key m)) @ kafka_encoding (EncBytes (Value m)))"
  by (simp add: ComputeCrc_eq sample_lib_def sample_proto_def)

lemma crc_k_v:
  "crc32_ieee [0, 0, 0, 0, 0, 1, 107, 0, 0, 0, 1, 118] = 0x1FECD70A"
  by (simp add: crc32_ieee_def crc32_byte_def funpow8 crc32_bit_def)

lemma crc_k_v2:
  "crc32_ieee [0, 0, 0, 0, 0, 1, 107, 0, 0, 0, 2, 118, 50] = 0xF859059D"
  by (simp add: crc32_ieee_def crc32_byte_def funpow8 crc32_bit_def)

lemma crc_collision_1:
  "crc32_ieee [0, 0, 0, 0, 0, 1, 107, 0, 0, 0, 5, 0, 0, 0, 0, 0] = 0x54FFFAA1"
  by (simp add: crc32_ieee_def crc32_byte_def funpow8 crc32_bit_def)

lemma crc_collision_2:
  "crc32_ieee [0, 0, 0, 0, 0, 1, 107, 0, 0, 0, 5, 65, 6, 113, 219, 1] = 0x54FFFAA1"
  by (simp add: crc32_ieee_def crc32_byte_def funpow8 crc32_bit_def)

lemma ComputeCrc_k_v:
  "ComputeCrc sample_lib sample_proto \<lparr>Key = Some [107], Value = Some [118], \<dots> = ext\<rparr> =
     0x1FECD70A"
  by (simp add: ComputeCrc_sample be32_def crc_k_v)

lemma ComputeCrc_k_v2:
  "ComputeCrc sample_lib sample_proto \<lparr>Key = Some [107], Value = Some [118, 50], \<dots> = ext\<rparr> =
     0xF859059D"
  by (simp add: ComputeCrc_sample be32_def crc_k_v2)

lemma ComputeCrc_not_injective:
  "\<exists>(m :: Message) (m' :: Message).
     Key m \<noteq> Key m' \<and> ComputeCrc lib proto m = ComputeCrc lib proto m'"
proof -
  let ?f = "\<lambda>n :: nat. ComputeCrc lib proto \<lparr>Key = Some (replicate n 0), Value = None\<rparr>"
  have "\<not> inj ?f"
  proof
    assume "inj ?f"
    moreover have "finite (range ?f)"
      by (rule finite_subset [OF subset_UNIV]) simp
    ultimately have "finite (UNIV :: nat set)"
      by (rule finite_imageD [rotated])
    then show False by simp
  qed
  then obtain a b where "a \<noteq> b" and eq: "?f a = ?f b"
    by (auto simp: inj_def)
  then have "replicate a (0 :: byte) \<noteq> replicate b 0"
    by (metis length_replicate)
  with eq have
    "Key \<lparr>Key = Some (replicate a 0), Value = None\<rparr> \<noteq>
       Key \<lparr>Key = Some (replicate b 0), Value = None\<rparr> \<and>
     ComputeCrc lib proto \<lparr>Key = Some (replicate a 0), Value = None\<rparr> =
       ComputeCrc lib proto \<lparr>Key = Some (replicate b 0), Value = None\<rparr>"
    by simp
  then show ?thesis by blast
qed

section \<open>The claims\<close>

text \<open>
  C1. A Fetch request that no handler of its own kind takes is answered by the default
  responder with a Fetch response that has the correlation identifier of the request, one
  topic for each topic of the request, in the same order and under the same name, and in
  each topic one partition for each partition of the request, in the same order and with
  the same identifier; every partition carries the error "unknown topic or partition",
  the tip offset \<open>-1\<close> and no messages. When the registry has no Fetch handler and the
  fallback is the default responder, the dispatcher writes the bytes of that response.
\<close>

theorem default_fetch_response:
  "(let resp = FetchRespPtr
       \<lparr>FetchResp.CorrelationID = FetchReq.CorrelationID req,
        FetchResp.Topics =
          map (\<lambda>topic.
                \<lparr>FetchRespTopic.Name = FetchReqTopic.Name topic,
                 FetchRespTopic.Partitions =
                   map (\<lambda>part.
                         \<lparr>FetchRespPartition.ID = FetchReqPartition.ID part,
                          FetchRespPartition.Err = Some ErrUnknownTopicOrPartition,
                          TipOffset = - 1,
                          Messages = []\<rparr>)
                     (FetchReqTopic.Partitions topic)\<rparr>)
            (FetchReq.Topics req)\<rparr>
    in defaultRequestHandler lib srv (Some (FetchReqPtr req)) = Inr (Some resp) \<and>
       (handlers srv FetchRequest = None \<and>
        handlers srv AnyRequest = Some DefaultRequestHandler \<and>
        ReadFetchReq proto b = Inr req \<longrightarrow>
        dispatch lib proto srv FetchRequest b =
          (case Bytes proto resp of
             Inl err \<Rightarrow> Inl (CannotSerialize resp err)
           | Inr bs \<Rightarrow> Inr (Some bs))))"
proof -
  have resp: "map unknown_fetch_topic (FetchReq.Topics req) =
      map (\<lambda>topic.
            \<lparr>FetchRespTopic.Name = FetchReqTopic.Name topic,
             FetchRespTopic.Partitions =
               map (\<lambda>part.
                     \<lparr>FetchRespPartition.ID = FetchReqPartition.ID part,
                      FetchRespPartition.Err = Some ErrUnknownTopicOrPartition,
                      TipOffset = - 1,
                      Messages = []\<rparr>)
                 (FetchReqTopic.Partitions topic)\<rparr>)
        (FetchReq.Topics req)"
    by (simp add: unknown_fetch_topic_def unknown_fetch_partition_def)
  show ?thesis
    unfolding Let_def resp [symmetric]
    by (simp add: default_fetch dispatch_default decode_Fetch)
qed

theorem default_fetch_response_witness:
  "defaultRequestHandler sample_lib NewServer (Some (FetchReqPtr example_fetch_req)) =
     Inr (Some (FetchRespPtr
       \<lparr>FetchResp.CorrelationID = 42,
        FetchResp.Topics =
          [\<lparr>FetchRespTopic.Name = ''a'',
            FetchRespTopic.Partitions =
              [\<lparr>FetchRespPartition.ID = 1, FetchRespPartition.Err = Some ErrUnknownTopicOrPartition,
                TipOffset = - 1, Messages = []\<rparr>,
               \<lparr>FetchRespPartition.ID = 5, FetchRespPartition.Err = Some ErrUnknownTopicOrPartition,
                TipOffset = - 1, Messages = []\<rparr>]\<rparr>,
           \<lparr>FetchRespTopic.Name = ''b'',
            FetchRespTopic.Partitions =
              [\<lparr>FetchRespPartition.ID = 7, FetchRespPartition.Err = Some ErrUnknownTopicOrPartition,
                TipOffset = - 1, Messages = []\<rparr>]\<rparr>]\<rparr>)) \<and>
   dispatch sample_lib (sample_proto\<lparr>ReadFetchReq := \<lambda>b. Inr example_fetch_req\<rparr>) NewServer
     FetchRequest [0, 0, 0, 42] = Inr (Some [0, 0, 0, 42])"
  using default_fetch_response [of example_fetch_req sample_lib NewServer
      "sample_proto\<lparr>ReadFetchReq := \<lambda>b. Inr example_fetch_req\<rparr>" "[0, 0, 0, 42]"]
  by (simp add: Let_def example_fetch_req_def NewServer_def AnyRequest_def FetchRequest_def
      sample_proto_def be32_def)

text \<open>
  C2. A Produce request that no handler of its own kind takes is answered by the default
  responder with a Produce response that has the correlation identifier of the request and
  matches its topics and partitions in number, order, names and partition identifiers;
  every partition carries the error "unknown topic or partition" and the offset \<open>-1\<close>.
  When the registry has no Produce handler and the fallback is the default responder, the
  dispatcher writes the bytes of that response.
\<close>

theorem default_produce_response:
  "(let resp = ProduceRespPtr
       \<lparr>ProduceResp.CorrelationID = ProduceReq.CorrelationID req,
        ProduceResp.Topics =
          map (\<lambda>topic.
                \<lparr>ProduceRespTopic.Name = ProduceReqTopic.Name topic,
                 ProduceRespTopic.Partitions =
                   map (\<lambda>part.
                         \<lparr>ProduceRespPartition.ID = ProduceReqPartition.ID part,
                          ProduceRespPartition.Err = Some ErrUnknownTopicOrPartition,
                          Offset = - 1\<rparr>)
                     (ProduceReqTopic.Partitions topic)\<rparr>)
            (ProduceReq.Topics req)\<rparr>
    in defaultRequestHandler lib srv (Some (ProduceReqPtr req)) = Inr (Some resp) \<and>
       (handlers srv ProduceRequest = None \<and>
        handlers srv AnyRequest = Some DefaultRequestHandler \<and>
        ReadProduceReq proto b = Inr req \<longrightarrow>
        dispatch lib proto srv ProduceRequest b =
          (case Bytes proto resp of
             Inl err \<Rightarrow> Inl (CannotSerialize resp err)
           | Inr bs \<Rightarrow> Inr (Some bs))))"
proof -
  have resp: "map unknown_produce_topic (ProduceReq.Topics req) =
      map (\<lambda>topic.
            \<lparr>ProduceRespTopic.Name = ProduceReqTopic.Name topic,
             ProduceRespTopic.Partitions =
               map (\<lambda>part.
                     \<lparr>ProduceRespPartition.ID = ProduceReqPartition.ID part,
                      ProduceRespPartition.Err = Some ErrUnknownTopicOrPartition,
                      Offset = - 1\<rparr>)
                 (ProduceReqTopic.Partitions topic)\<rparr>)
        (ProduceReq.Topics req)"
    by (simp add: unknown_produce_topic_def unknown_produce_partition_def)
  show ?thesis
    unfolding Let_def resp [symmetric]
    by (simp add: default_produce dispatch_default decode_Produce)
qed

theorem default_produce_response_witness:
  "defaultRequestHandler sample_lib NewServer (Some (ProduceReqPtr example_produce_req)) =
     Inr (Some (ProduceRespPtr
       \<lparr>ProduceResp.CorrelationID = 7,
        ProduceResp.Topics =
          [\<lparr>ProduceRespTopic.Name = ''first'',
            ProduceRespTopic.Partitions =
              [\<lparr>ProduceRespPartition.ID = 0,
                ProduceRespPartition.Err = Some ErrUnknownTopicOrPartition, Offset = - 1\<rparr>]\<rparr>,
           \<lparr>ProduceRespTopic.Name = ''second'',
            ProduceRespTopic.Partitions =
              [\<lparr>ProduceRespPartition.ID = 3,
                ProduceRespPartition.Err = Some ErrUnknownTopicOrPartition, Offset = - 1\<rparr>]\<rparr>]\<rparr>)) \<and>
   dispatch sample_lib (sample_proto\<lparr>ReadProduceReq := \<lambda>b. Inr example_produce_req\<rparr>) NewServer
     ProduceRequest [0, 0, 0, 7] = Inr (Some [0, 0, 0, 7])"
  using default_produce_response [of example_produce_req sample_lib NewServer
      "sample_proto\<lparr>ReadProduceReq := \<lambda>b. Inr example_produce_req\<rparr>" "[0, 0, 0, 7]"]
  by (simp add: Let_def example_produce_req_def NewServer_def AnyRequest_def ProduceRequest_def
      sample_proto_def be32_def)

text \<open>
  C3. Where \<^verbatim>\<open>HostPort\<close> returns the host and the port the server is bound to, the
  default responder answers a Metadata request with a Metadata response that has the
  correlation identifier of the request, exactly one broker, with node identifier 1, that
  host and that port (converted to \<^verbatim>\<open>int32\<close>, which keeps every port in the range of
  \<^verbatim>\<open>int32\<close>), and no topics. The host is "localhost" when the address of the listener
  splits into an empty host. When the registry has no Metadata handler and the fallback is
  the default responder, the dispatcher writes the bytes of that response.
\<close>

theorem default_metadata_response:
  assumes "HostPort lib srv = Inr (host, port)"
  shows "(let resp = MetadataRespPtr
            \<lparr>MetadataResp.CorrelationID = MetadataReq.CorrelationID req,
             Brokers = [\<lparr>NodeID = 1, Host = host, Port = word_of_int port\<rparr>],
             MetadataResp.Topics = []\<rparr>
          in defaultRequestHandler lib srv (Some (MetadataReqPtr req)) = Inr (Some resp) \<and>
             (handlers srv MetadataRequest = None \<and>
              handlers srv AnyRequest = Some DefaultRequestHandler \<and>
              ReadMetadataReq proto b = Inr req \<longrightarrow>
              dispatch lib proto srv MetadataRequest b =
                (case Bytes proto resp of
                   Inl err \<Rightarrow> Inl (CannotSerialize resp err)
                 | Inr bs \<Rightarrow> Inr (Some bs)))) \<and>
         (- (2 ^ 31) \<le> port \<and> port < 2 ^ 31 \<longrightarrow> sint (word_of_int port :: int32) = port) \<and>
         (\<forall>l sport. ln srv = Some l \<and> SplitHostPort lib (AddrString l) = Inr ([], sport) \<longrightarrow>
            host = ''localhost'')"
proof -
  have "\<forall>l sport. ln srv = Some l \<and> SplitHostPort lib (AddrString l) = Inr ([], sport) \<longrightarrow>
      host = ''localhost''"
    using assms by (auto simp: HostPort_Inr)
  then show ?thesis
    using assms
    by (simp add: Let_def default_metadata dispatch_default decode_Metadata sint_int32_in_range)
qed

theorem default_metadata_response_witness:
  "HostPort sample_lib (NewServer\<lparr>ln := Some example_listener\<rparr>) = Inr (''localhost'', 9092) \<and>
   defaultRequestHandler sample_lib (NewServer\<lparr>ln := Some example_listener\<rparr>)
     (Some (MetadataReqPtr \<lparr>MetadataReq.CorrelationID = 42\<rparr>)) =
     Inr (Some (MetadataRespPtr
       \<lparr>MetadataResp.CorrelationID = 42,
        Brokers = [\<lparr>NodeID = 1, Host = ''localhost'', Port = 9092\<rparr>],
        MetadataResp.Topics = []\<rparr>)) \<and>
   dispatch sample_lib sample_proto (NewServer\<lparr>ln := Some example_listener\<rparr>)
     MetadataRequest [0, 0, 0, 42] = Inr (Some [0, 0, 0, 42]) \<and>
   sint (9092 :: int32) = 9092"
proof -
  have hp: "HostPort sample_lib (NewServer\<lparr>ln := Some example_listener\<rparr>) =
      Inr (''localhost'', 9092)"
    by (simp add: HostPort_def sample_lib_def example_listener_def)
  show ?thesis
    using hp default_metadata_response [OF hp, of "\<lparr>MetadataReq.CorrelationID = 42\<rparr>"
        sample_proto "[0, 0, 0, 42]"]
    by (simp add: Let_def NewServer_def AnyRequest_def MetadataRequest_def sample_proto_def
        be32_def)
qed

text \<open>
  C4. On an Offset, a ConsumerMetadata, an OffsetCommit and an OffsetFetch request the
  default responder panics with "not implemented" and returns no response. So does the
  dispatcher on a frame of one of these kinds, once decoded, when the registry has no
  handler of that kind and the fallback is the default responder: nothing is written and
  the loop does not reach the next frame.
\<close>

theorem default_not_implemented:
  "defaultRequestHandler lib srv (Some (OffsetReqPtr oreq)) = Inl NotImplemented \<and>
   defaultRequestHandler lib srv (Some (ConsumerMetadataReqPtr cmreq)) = Inl NotImplemented \<and>
   defaultRequestHandler lib srv (Some (OffsetCommitReqPtr ocreq)) = Inl NotImplemented \<and>
   defaultRequestHandler lib srv (Some (OffsetFetchReqPtr ofreq)) = Inl NotImplemented \<and>
   (kind \<in> {OffsetRequest, ConsumerMetadataRequest, OffsetCommitRequest, OffsetFetchRequest} \<and>
    handlers srv kind = None \<and>
    handlers srv AnyRequest = Some DefaultRequestHandler \<and>
    decode proto kind b = Inr request \<longrightarrow>
    dispatch lib proto srv kind b = Inl NotImplemented \<and>
    handleClient lib proto srv ((kind, b) # frames) written = Inl NotImplemented)"
proof -
  have "dispatch lib proto srv kind b = Inl NotImplemented"
    if "kind \<in> {OffsetRequest, ConsumerMetadataRequest, OffsetCommitRequest, OffsetFetchRequest}"
      and "handlers srv kind = None"
      and "handlers srv AnyRequest = Some DefaultRequestHandler"
      and "decode proto kind b = Inr request"
    using that by (simp add: dispatch_default decode_unimplemented)
  then show ?thesis
    by (simp add: default_unimplemented)
qed

theorem default_not_implemented_witness:
  "dispatch sample_lib sample_proto NewServer OffsetRequest [0, 0, 0, 42] = Inl NotImplemented \<and>
   handleClient sample_lib sample_proto NewServer
     [(OffsetRequest, [0, 0, 0, 42]), (FetchRequest, [0, 0, 0, 43])] [] = Inl NotImplemented"
proof -
  have "decode sample_proto OffsetRequest [0, 0, 0, 42] =
      Inr (Some (OffsetReqPtr \<lparr>OffsetReq.CorrelationID = 42\<rparr>))"
    by (simp add: decode_def sample_proto_def OffsetRequest_def FetchRequest_def
        ProduceRequest_def)
  then show ?thesis
    using default_not_implemented [of sample_lib NewServer _ _ _ _ OffsetRequest sample_proto
        "[0, 0, 0, 42]" "Some (OffsetReqPtr \<lparr>OffsetReq.CorrelationID = 42\<rparr>)"
        "[(FetchRequest, [0, 0, 0, 43])]" "[]"]
    by (simp add: NewServer_def AnyRequest_def OffsetRequest_def)
qed

text \<open>
  C5. In every state a server reaches from \<^verbatim>\<open>NewServer\<close> by \<^verbatim>\<open>Handle\<close> calls (and by
  starting, closing and serving connections), the lookup of \<^verbatim>\<open>handleClient\<close> returns, for
  every request kind, the handler registered for that kind if there is one and the entry
  under \<^verbatim>\<open>AnyRequest\<close> otherwise. That entry is there after construction and \<^verbatim>\<open>Handle\<close>
  never removes it, so the lookup always finds a handler and neither one turn of the
  dispatcher nor its loop ends in the panic "no handler for".
\<close>

theorem resolve_always_finds_handler:
  "handlers NewServer AnyRequest = Some DefaultRequestHandler \<and>
   (handlers srv' AnyRequest \<noteq> None \<longrightarrow>
      handlers (Handle reqKind handler srv') AnyRequest \<noteq> None) \<and>
   (let srv = run lib proto ops NewServer
    in (\<exists>fallback. handlers srv AnyRequest = Some fallback) \<and>
       (\<forall>fn. handlers srv kind = Some fn \<longrightarrow> resolve srv kind = Some fn) \<and>
       (handlers srv kind = None \<longrightarrow> resolve srv kind = handlers srv AnyRequest) \<and>
       (\<exists>fn. resolve srv kind = Some fn) \<and>
       dispatch lib proto srv kind b \<noteq> Inl (NoHandlerFor kind') \<and>
       handleClient lib proto srv frames written \<noteq> Inl (NoHandlerFor kind'))"
proof -
  define srv where "srv = run lib proto ops NewServer"
  have new: "handlers NewServer AnyRequest = Some DefaultRequestHandler"
    by (simp add: NewServer_def)
  then have fallback: "handlers srv AnyRequest \<noteq> None"
    unfolding srv_def by (intro run_fallback) simp
  then have found: "resolve srv k \<noteq> None" for k
    by (rule resolve_fallback)
  have "dispatch lib proto srv kind b \<noteq> Inl (NoHandlerFor kind')"
  proof
    assume "dispatch lib proto srv kind b = Inl (NoHandlerFor kind')"
    then have "resolve srv kind = None"
      by (rule dispatch_NoHandlerFor)
    with found [of kind] show False by simp
  qed
  moreover have "handleClient lib proto srv frames written \<noteq> Inl (NoHandlerFor kind')"
  proof
    assume "handleClient lib proto srv frames written = Inl (NoHandlerFor kind')"
    then obtain k where "resolve srv k = None"
      by (blast dest: handleClient_NoHandlerFor)
    with found [of k] show False by simp
  qed
  moreover have "\<forall>fn. handlers srv kind = Some fn \<longrightarrow> resolve srv kind = Some fn"
    by (simp add: resolve_def)
  moreover have "handlers srv kind = None \<longrightarrow> resolve srv kind = handlers srv AnyRequest"
    by (simp add: resolve_def)
  moreover have "handlers srv' AnyRequest \<noteq> None \<longrightarrow>
      handlers (Handle reqKind handler srv') AnyRequest \<noteq> None"
    by (simp add: Handle_def)
  ultimately show ?thesis
    using new fallback found [of kind] by (simp add: Let_def srv_def [symmetric])
qed

theorem resolve_always_finds_handler_witness:
  "handlers (run sample_lib sample_proto [OpHandle FetchRequest NilHandler] NewServer)
     FetchRequest = Some NilHandler \<and>
   resolve (run sample_lib sample_proto [OpHandle FetchRequest NilHandler] NewServer)
     FetchRequest = Some NilHandler \<and>
   handlers (run sample_lib sample_proto [OpHandle FetchRequest NilHandler] NewServer)
     ProduceRequest = None \<and>
   resolve (run sample_lib sample_proto [OpHandle FetchRequest NilHandler] NewServer)
     ProduceRequest = Some DefaultRequestHandler \<and>
   handlers (Handle AnyRequest NilHandler NewServer) AnyRequest = Some NilHandler"
  using resolve_always_finds_handler [of NewServer AnyRequest NilHandler sample_lib sample_proto
      "[OpHandle FetchRequest NilHandler]" FetchRequest]
    resolve_always_finds_handler [of NewServer AnyRequest NilHandler sample_lib sample_proto
      "[OpHandle FetchRequest NilHandler]" ProduceRequest]
  by (simp add: Let_def apply_op_def Handle_def NewServer_def AnyRequest_def FetchRequest_def
      ProduceRequest_def)

text \<open>
  C6. The default responder does not alter the correlation identifier: whenever it
  returns, it returns a response, the request was one that carries a correlation
  identifier, and the response carries the same one. The dispatcher hands the decoded
  request to the handler it resolved and writes the bytes of the response the handler
  returned, nothing else.
\<close>

theorem correlation_id_unaltered:
  "(defaultRequestHandler lib srv request = Inr response \<longrightarrow>
      (\<exists>req resp c. request = Some req \<and> response = Some resp \<and>
         correlation_id req = Some c \<and> correlation_id resp = Some c)) \<and>
   (resolve srv kind = Some fn \<and> decode proto kind b = Inr request' \<and>
    call_handler lib srv fn request' = Inr (Some response') \<and>
    Bytes proto response' = Inr bs \<longrightarrow>
      dispatch lib proto srv kind b = Inr (Some bs) \<and>
      handleClient lib proto srv [(kind, b)] written = Inr (written @ [bs]))"
proof -
  have "\<exists>req resp c. request = Some req \<and> response = Some resp \<and>
         correlation_id req = Some c \<and> correlation_id resp = Some c"
    if ret: "defaultRequestHandler lib srv request = Inr response"
  proof (cases request)
    case None
    with ret show ?thesis by (simp add: defaultRequestHandler_def)
  next
    case (Some v)
    show ?thesis
    proof (cases v)
      case (FetchReqPtr req)
      with ret Some show ?thesis by (auto simp: default_fetch)
    next
      case (ProduceReqPtr req)
      with ret Some show ?thesis by (auto simp: default_produce)
    next
      case (MetadataReqPtr req)
      with ret Some show ?thesis
        by (auto simp: defaultRequestHandler_def split: option.splits sum.splits prod.splits)
    qed (use ret Some in \<open>simp_all add: defaultRequestHandler_def\<close>)
  qed
  moreover have "dispatch lib proto srv kind b = Inr (Some bs) \<and>
      handleClient lib proto srv [(kind, b)] written = Inr (written @ [bs])"
    if "resolve srv kind = Some fn" "decode proto kind b = Inr request'"
      "call_handler lib srv fn request' = Inr (Some response')" "Bytes proto response' = Inr bs"
    using that by (simp add: dispatch_def)
  ultimately show ?thesis by blast
qed

theorem correlation_id_unaltered_witness:
  "defaultRequestHandler sample_lib (Handle FetchRequest example_handler NewServer)
     (Some (ProduceReqPtr example_produce_req)) =
     Inr (Some (ProduceRespPtr
       \<lparr>ProduceResp.CorrelationID = 7,
        ProduceResp.Topics = map unknown_produce_topic (ProduceReq.Topics example_produce_req)\<rparr>)) \<and>
   correlation_id (ProduceReqPtr example_produce_req) = Some 7 \<and>
   handleClient sample_lib sample_proto (Handle FetchRequest example_handler NewServer)
     [(FetchRequest, [0, 0, 0, 42])] [[1, 2, 3]] = Inr [[1, 2, 3], [0, 0, 0, 99]]"
proof -
  let ?srv = "Handle FetchRequest example_handler NewServer"
  let ?resp = "FetchRespPtr \<lparr>FetchResp.CorrelationID = 99, FetchResp.Topics = []\<rparr>"
  have 1: "resolve ?srv FetchRequest = Some example_handler"
    by (simp add: resolve_def Handle_def)
  have 2: "decode sample_proto FetchRequest [0, 0, 0, 42] =
      Inr (Some (FetchReqPtr \<lparr>FetchReq.CorrelationID = 42, FetchReq.Topics = []\<rparr>))"
    by (simp add: decode_def sample_proto_def)
  have 3: "call_handler sample_lib ?srv example_handler
      (Some (FetchReqPtr \<lparr>FetchReq.CorrelationID = 42, FetchReq.Topics = []\<rparr>)) = Inr (Some ?resp)"
    by (simp add: call_handler_def example_handler_def)
  have 4: "Bytes sample_proto ?resp = Inr [0, 0, 0, 99]"
    by (simp add: sample_proto_def be32_def)
  have 5: "defaultRequestHandler sample_lib ?srv (Some (ProduceReqPtr example_produce_req)) =
     Inr (Some (ProduceRespPtr
       \<lparr>ProduceResp.CorrelationID = 7,
        ProduceResp.Topics = map unknown_produce_topic (ProduceReq.Topics example_produce_req)\<rparr>))"
    by (simp add: default_produce example_produce_req_def)
  show ?thesis
    using correlation_id_unaltered [where lib = sample_lib and srv = ?srv
        and request = "Some (ProduceReqPtr example_produce_req)" and kind = FetchRequest
        and fn = example_handler and proto = sample_proto and b = "[0, 0, 0, 42]"
        and response' = ?resp and bs = "[0, 0, 0, 99]" and written = "[[1, 2, 3]]"] 1 2 3 4 5
    by (simp add: example_produce_req_def)
qed

text \<open>
  C9. \<^verbatim>\<open>Start\<close> on a server whose listener is bound panics with "server already
  started", whatever \<^verbatim>\<open>net.Listen\<close> would have answered, and binds nothing. On a server
  with no listener a failure of \<^verbatim>\<open>net.Listen\<close> is a panic too, and its success binds
  the listener. Once \<^verbatim>\<open>Start\<close> has succeeded, every later \<^verbatim>\<open>Start\<close> panics, whatever
  was done with the server in between (closing included): a server binds at most once.
\<close>

theorem Start_binds_at_most_once:
  "(ln srv \<noteq> None \<longrightarrow> Start listen srv = Inl ServerAlreadyStarted) \<and>
   (ln srv = None \<longrightarrow> Start (Inl err) srv = Inl (CannotStartServer err)) \<and>
   (ln srv = None \<longrightarrow> Start (Inr l) srv = Inr (srv\<lparr>ln := Some l\<rparr>)) \<and>
   (Start listen srv = Inr srv' \<longrightarrow>
      Start listen' (run lib proto ops srv') = Inl ServerAlreadyStarted)"
proof -
  have "Start listen' (run lib proto ops srv') = Inl ServerAlreadyStarted"
    if "Start listen srv = Inr srv'"
  proof -
    from that have "ln srv' \<noteq> None"
      by (auto simp: Start_def split: if_splits sum.splits)
    then have "ln (run lib proto ops srv') \<noteq> None"
      by (rule run_started)
    then show ?thesis
      by (simp add: Start_def)
  qed
  then show ?thesis
    by (simp add: Start_def)
qed

theorem Start_binds_at_most_once_witness:
  "Start (Inr example_listener) NewServer = Inr (NewServer\<lparr>ln := Some example_listener\<rparr>) \<and>
   Start (Inr example_listener) (NewServer\<lparr>ln := Some example_listener\<rparr>) =
     Inl ServerAlreadyStarted \<and>
   Start (Inl ''address already in use'') NewServer =
     Inl (CannotStartServer ''address already in use'') \<and>
   Start (Inr example_listener)
     (run sample_lib sample_proto [OpClose] (NewServer\<lparr>ln := Some example_listener\<rparr>)) =
     Inl ServerAlreadyStarted"
proof -
  have fresh: "ln NewServer = None"
    by (simp add: NewServer_def)
  have started: "Start (Inr example_listener) NewServer =
      Inr (NewServer\<lparr>ln := Some example_listener\<rparr>)"
    by (simp add: Start_def fresh)
  show ?thesis
    using fresh started
      Start_binds_at_most_once [where srv = NewServer and listen = "Inr example_listener"
        and srv' = "NewServer\<lparr>ln := Some example_listener\<rparr>" and err = "''address already in use''"
        and listen' = "Inr example_listener" and lib = sample_lib and proto = sample_proto
        and ops = "[OpClose]"]
      Start_binds_at_most_once [where srv = "NewServer\<lparr>ln := Some example_listener\<rparr>"
        and listen = "Inr example_listener"]
    by simp
qed

text \<open>
  C10. The counter \<^verbatim>\<open>Processed\<close> is 0 after \<^verbatim>\<open>NewServer\<close>, and \<^verbatim>\<open>Handle\<close>,
  \<^verbatim>\<open>Start\<close>, \<^verbatim>\<open>Close\<close> and the serving of a connection (the dispatcher with the default
  responder behind it) leave it as it was: after any run from construction it is still 0,
  however many requests were dispatched.
\<close>

theorem Processed_stays_zero:
  "Processed NewServer = 0 \<and>
   Processed (Handle reqKind handler srv) = Processed srv \<and>
   (Start listen srv = Inr srv' \<longrightarrow> Processed srv' = Processed srv) \<and>
   (Close srv = Inr srv' \<longrightarrow> Processed srv' = Processed srv) \<and>
   (apply_op lib proto (OpClient frames) srv = Inr srv' \<longrightarrow> Processed srv' = Processed srv) \<and>
   Processed (run lib proto ops srv) = Processed srv \<and>
   Processed (run lib proto ops NewServer) = 0"
proof -
  have "Processed NewServer = 0"
    by (simp add: NewServer_def)
  moreover have "Processed (Handle reqKind handler srv) = Processed srv"
    by (simp add: Handle_def)
  moreover have "Start listen srv = Inr srv' \<longrightarrow> Processed srv' = Processed srv"
    by (auto simp: Start_def split: if_splits sum.splits)
  moreover have "Close srv = Inr srv' \<longrightarrow> Processed srv' = Processed srv"
    by (auto simp: Close_def split: option.splits)
  moreover have "apply_op lib proto (OpClient frames) srv = Inr srv' \<longrightarrow>
      Processed srv' = Processed srv"
    by (simp add: apply_op_Processed)
  ultimately show ?thesis
    by (simp add: run_Processed)
qed

theorem Processed_stays_zero_witness:
  "Start (Inr example_listener) NewServer = Inr (NewServer\<lparr>ln := Some example_listener\<rparr>) \<and>
   Processed (NewServer\<lparr>ln := Some example_listener\<rparr>) = 0 \<and>
   Close (NewServer\<lparr>ln := Some example_listener\<rparr>) =
     Inr (NewServer\<lparr>ln := Some (example_listener\<lparr>closed := True\<rparr>)\<rparr>) \<and>
   Processed (NewServer\<lparr>ln := Some (example_listener\<lparr>closed := True\<rparr>)\<rparr>) = 0 \<and>
   apply_op sample_lib sample_proto
     (OpClient [(FetchRequest, [0, 0, 0, 42]), (ProduceRequest, [0, 0, 0, 43])]) NewServer =
     Inr NewServer \<and>
   Processed
     (run sample_lib sample_proto
        [OpHandle OffsetRequest example_handler,
         OpStart (Inr example_listener),
         OpClient [(FetchRequest, [0, 0, 0, 42]), (ProduceRequest, [0, 0, 0, 43])],
         OpClose]
        NewServer) = 0"
proof -
  have started: "Start (Inr example_listener) NewServer =
      Inr (NewServer\<lparr>ln := Some example_listener\<rparr>)"
    by (simp add: Start_def NewServer_def)
  have closed: "Close (NewServer\<lparr>ln := Some example_listener\<rparr>) =
      Inr (NewServer\<lparr>ln := Some (example_listener\<lparr>closed := True\<rparr>)\<rparr>)"
    by (simp add: Close_def)
  have fetch: "dispatch sample_lib sample_proto NewServer FetchRequest [0, 0, 0, 42] =
      Inr (Some [0, 0, 0, 42])"
    by (simp add: dispatch_default [where request =
          "Some (FetchReqPtr \<lparr>FetchReq.CorrelationID = 42, FetchReq.Topics = []\<rparr>)"]
        NewServer_def AnyRequest_def FetchRequest_def decode_def default_fetch sample_proto_def
        be32_def)
  have produce: "dispatch sample_lib sample_proto NewServer ProduceRequest [0, 0, 0, 43] =
      Inr (Some [0, 0, 0, 43])"
    by (simp add: dispatch_default [where request =
          "Some (ProduceReqPtr \<lparr>ProduceReq.CorrelationID = 43, ProduceReq.Topics = []\<rparr>)"]
        NewServer_def AnyRequest_def FetchRequest_def ProduceRequest_def decode_def
        default_produce sample_proto_def be32_def)
  have served: "apply_op sample_lib sample_proto
     (OpClient [(FetchRequest, [0, 0, 0, 42]), (ProduceRequest, [0, 0, 0, 43])]) NewServer =
     Inr NewServer"
    by (simp add: apply_op_def fetch produce)
  show ?thesis
    using started closed served
      Processed_stays_zero [where srv = NewServer and listen = "Inr example_listener"
        and srv' = "NewServer\<lparr>ln := Some example_listener\<rparr>" and lib = sample_lib
        and proto = sample_proto
        and ops = "[OpHandle OffsetRequest example_handler,
         OpStart (Inr example_listener),
         OpClient [(FetchRequest, [0, 0, 0, 42]), (ProduceRequest, [0, 0, 0, 43])],
         OpClose]"]
      Processed_stays_zero [where srv = "NewServer\<lparr>ln := Some example_listener\<rparr>"
        and srv' = "NewServer\<lparr>ln := Some (example_listener\<lparr>closed := True\<rparr>)\<rparr>"]
    by simp
qed

text \<open>
  C7. \<^verbatim>\<open>ComputeCrc\<close> of a message is the IEEE CRC-32 checksum (\<^verbatim>\<open>crc32.ChecksumIEEE\<close>)
  of the bytes the encoder writes for the magic byte 0, the attributes byte 0, the key and
  the value of the message, in this order. It depends on the key and the value alone: two
  messages with the same key and the same value have the same result, whatever their other
  fields hold.
\<close>

theorem ComputeCrc_is_checksum_of_encoding:
  "ComputeCrc lib proto m =
     ChecksumIEEE lib
       (encoding proto (EncInt8 0) @ encoding proto (EncInt8 0) @
        encoding proto (EncBytes (Key m)) @ encoding proto (EncBytes (Value m))) \<and>
   (Key m = Key m' \<and> Value m = Value m' \<longrightarrow> ComputeCrc lib proto m = ComputeCrc lib proto m')"
  by (simp add: ComputeCrc_eq)

theorem ComputeCrc_is_checksum_of_encoding_witness:
  "ComputeCrc sample_lib sample_proto
     \<lparr>Key = Some [107], Value = Some [118], \<dots> = (1 :: nat)\<rparr> =
     crc32_ieee [0, 0, 0, 0, 0, 1, 107, 0, 0, 0, 1, 118] \<and>
   ComputeCrc sample_lib sample_proto
     \<lparr>Key = Some [107], Value = Some [118], \<dots> = (1 :: nat)\<rparr> =
   ComputeCrc sample_lib sample_proto
     \<lparr>Key = Some [107], Value = Some [118], \<dots> = (2 :: nat)\<rparr>"
proof -
  let ?m = "\<lparr>Key = Some [107], Value = Some [118], \<dots> = (1 :: nat)\<rparr>"
  let ?m' = "\<lparr>Key = Some [107], Value = Some [118], \<dots> = (2 :: nat)\<rparr>"
  note crc = ComputeCrc_is_checksum_of_encoding [where lib = sample_lib and proto = sample_proto
      and m = ?m and m' = ?m']
  from crc have "ComputeCrc sample_lib sample_proto ?m =
      crc32_ieee [0, 0, 0, 0, 0, 1, 107, 0, 0, 0, 1, 118]"
    by (simp add: sample_lib_def sample_proto_def be32_def)
  moreover from crc have "ComputeCrc sample_lib sample_proto ?m =
      ComputeCrc sample_lib sample_proto ?m'"
    by (elim conjE impE) simp_all
  ultimately show ?thesis by simp
qed

text \<open>
  C8, as the claim states it, fails: a 32-bit checksum cannot tell all messages apart
  (\<open>ComputeCrc_not_injective\<close> shows it for every encoder and every checksum function).
  With Kafka's encoding and CRC-32, the key "k" with the five-byte values
  \<open>00 00 00 00 00\<close> and \<open>41 06 71 DB 01\<close> gives the same result, \<open>0x54FFFAA1\<close>.
\<close>

theorem ComputeCrc_collision:
  "Value \<lparr>Key = Some [107], Value = Some [0, 0, 0, 0, 0]\<rparr> \<noteq>
     Value \<lparr>Key = Some [107], Value = Some [65, 6, 113, 219, 1]\<rparr> \<and>
   ComputeCrc sample_lib sample_proto \<lparr>Key = Some [107], Value = Some [0, 0, 0, 0, 0]\<rparr> =
     ComputeCrc sample_lib sample_proto \<lparr>Key = Some [107], Value = Some [65, 6, 113, 219, 1]\<rparr> \<and>
   ComputeCrc sample_lib sample_proto \<lparr>Key = Some [107], Value = Some [0, 0, 0, 0, 0]\<rparr> =
     0x54FFFAA1"
  by (simp add: ComputeCrc_sample be32_def crc_collision_1 crc_collision_2)

text \<open>
  C8, amended. Messages with the same key and the same value have the same
  \<^verbatim>\<open>ComputeCrc\<close>, so two messages with different results differ in their key or in their
  value. The converse holds for the fixtures of the specification, not for all messages:
  with Kafka's encoding and CRC-32, the key "k" with the values "v" and "v2" gives two
  different results.
\<close>

theorem ComputeCrc_deterministic:
  "(Key m = Key m' \<and> Value m = Value m' \<longrightarrow> ComputeCrc lib proto m = ComputeCrc lib proto m') \<and>
   (ComputeCrc lib proto m \<noteq> ComputeCrc lib proto m' \<longrightarrow> Key m \<noteq> Key m' \<or> Value m \<noteq> Value m') \<and>
   ComputeCrc sample_lib sample_proto \<lparr>Key = Some [107], Value = Some [118]\<rparr> \<noteq>
     ComputeCrc sample_lib sample_proto \<lparr>Key = Some [107], Value = Some [118, 50]\<rparr>"
proof -
  have same: "Key m = Key m' \<and> Value m = Value m' \<longrightarrow>
      ComputeCrc lib proto m = ComputeCrc lib proto m'"
    by (simp add: ComputeCrc_eq)
  then have differ: "ComputeCrc lib proto m \<noteq> ComputeCrc lib proto m' \<longrightarrow>
      Key m \<noteq> Key m' \<or> Value m \<noteq> Value m'"
    by blast
  have "ComputeCrc sample_lib sample_proto \<lparr>Key = Some [107], Value = Some [118]\<rparr> \<noteq>
     ComputeCrc sample_lib sample_proto \<lparr>Key = Some [107], Value = Some [118, 50]\<rparr>"
    by (simp add: ComputeCrc_k_v ComputeCrc_k_v2)
  with same differ show ?thesis
    by (intro conjI)
qed

theorem ComputeCrc_deterministic_witness:
  "ComputeCrc sample_lib sample_proto \<lparr>Key = Some [107], Value = Some [118]\<rparr> = 0x1FECD70A \<and>
   ComputeCrc sample_lib sample_proto \<lparr>Key = Some [107], Value = Some [118, 50]\<rparr> = 0xF859059D \<and>
   Value \<lparr>Key = Some [107], Value = Some [118]\<rparr> \<noteq>
     Value \<lparr>Key = Some [107], Value = Some [118, 50]\<rparr>"
  using ComputeCrc_deterministic [where lib = sample_lib and proto = sample_proto
      and m = "\<lparr>Key = Some [107], Value = Some [118]\<rparr>"
      and m' = "\<lparr>Key = Some [107], Value = Some [118, 50]\<rparr>"]
  by (simp add: ComputeCrc_k_v ComputeCrc_k_v2)

end
